theory Spec2Isabelle
  imports Complex_Main "HOL-Library.Sublist"
begin

section \<open>Numbers\<close>

text \<open>
  The engine computes with JavaScript numbers. They are modelled as real numbers:
  \<open>Math.PI\<close> is \<open>pi\<close>, \<open>Math.sin\<close>, \<open>Math.cos\<close> and \<open>Math.sqrt\<close> are the real
  functions, and \<open>Math.round x\<close> is \<open>\<lfloor>x + 1/2\<rfloor>\<close>, which is HOL's \<open>round\<close>. The rounding
  error of IEEE doubles and the sign of zero are not modelled. The arguments of the
  engine (coordinates, capacities, rates, thresholds) are finite numbers.

  The one division of the engine whose divisor can be zero is the quotient of the weighted
  midpoint. JavaScript does not fail there: it yields an infinity or NaN, which the later
  comparisons see. That quotient is therefore a \<open>jsnum\<close>.
\<close>

datatype jsnum = Finite real | PosInfinity | NegInfinity | NaN

definition js_divide :: "real \<Rightarrow> real \<Rightarrow> jsnum" where
  "js_divide x y =
     (if y \<noteq> 0 then Finite (x / y)
      else if 0 < x then PosInfinity
      else if x < 0 then NegInfinity
      else NaN)"

fun js_ge :: "jsnum \<Rightarrow> real \<Rightarrow> bool" where
  "js_ge (Finite x) r = (r \<le> x)"
| "js_ge PosInfinity r = True"
| "js_ge NegInfinity r = False"
| "js_ge NaN r = False"

fun js_le :: "jsnum \<Rightarrow> real \<Rightarrow> bool" where
  "js_le (Finite x) r = (x \<le> r)"
| "js_le PosInfinity r = False"
| "js_le NegInfinity r = True"
| "js_le NaN r = False"

fun js_gt :: "jsnum \<Rightarrow> real \<Rightarrow> bool" where
  "js_gt (Finite x) r = (r < x)"
| "js_gt PosInfinity r = True"
| "js_gt NegInfinity r = False"
| "js_gt NaN r = False"

fun js_lt :: "jsnum \<Rightarrow> real \<Rightarrow> bool" where
  "js_lt (Finite x) r = (x < r)"
| "js_lt PosInfinity r = False"
| "js_lt NegInfinity r = True"
| "js_lt NaN r = False"

fun js_abs :: "jsnum \<Rightarrow> jsnum" where
  "js_abs (Finite x) = Finite \<bar>x\<bar>"
| "js_abs PosInfinity = PosInfinity"
| "js_abs NegInfinity = PosInfinity"
| "js_abs NaN = NaN"

text \<open>\<open>Math.atan2 y x\<close>: the angle of the point \<open>(x, y)\<close>, in \<open>(-pi, pi]\<close>.\<close>

definition atan2 :: "real \<Rightarrow> real \<Rightarrow> real" where
  "atan2 y x =
     (if 0 < x then arctan (y / x)
      else if x < 0 then (if 0 \<le> y then arctan (y / x) + pi else arctan (y / x) - pi)
      else if 0 < y then pi / 2
      else if y < 0 then - (pi / 2)
      else 0)"

section \<open>Data model (types.ts)\<close>

datatype OperationalStatus = Active | Inactive | Planned

datatype FacilityType = Petrochemical | Refinery | Steel | Cement | Power

record AceticAcidFacility =
  acetic_id :: string
  acetic_name :: string
  acetic_latitude :: real
  acetic_longitude :: real
  capacity :: real
  acetic_operationalStatus :: OperationalStatus
  acetic_lastUpdated :: string

record CO2EmitterFacility =
  co2_id :: string
  co2_name :: string
  co2_latitude :: real
  co2_longitude :: real
  co2EmissionRate :: real
  facilityType :: FacilityType
  co2_operationalStatus :: OperationalStatus
  co2_lastUpdated :: string

record OverlapSite =
  site_id :: string
  latitude :: jsnum
  longitude :: jsnum
  aceticAcidFacilities :: "string list"
  co2EmitterFacilities :: "string list"
  distance :: real
  governmentalScore :: real
  logisticsScore :: real
  policyIncentivesScore :: real
  communityReadinessScore :: real
  overallScore :: real

section \<open>Configuration tables (scoring-engine)\<close>

record ScoringWeights =
  weight_governmental :: real
  weight_logistics :: real
  weight_policyIncentives :: real
  weight_communityReadiness :: real

definition SCORING_WEIGHTS :: ScoringWeights where
  "SCORING_WEIGHTS =
     \<lparr> weight_governmental = 0.3, weight_logistics = 0.25,
       weight_policyIncentives = 0.25, weight_communityReadiness = 0.2 \<rparr>"

datatype Region = GulfCoast | Midwest | Northeast | WestCoast | Southeast

record ZoneRatings =
  zone_governmental :: real
  zone_logistics :: real
  zone_policy :: real

fun REGULATORY_ZONES :: "Region \<Rightarrow> ZoneRatings" where
  "REGULATORY_ZONES GulfCoast = \<lparr> zone_governmental = 85, zone_logistics = 90, zone_policy = 75 \<rparr>"
| "REGULATORY_ZONES Midwest = \<lparr> zone_governmental = 70, zone_logistics = 85, zone_policy = 60 \<rparr>"
| "REGULATORY_ZONES Northeast = \<lparr> zone_governmental = 60, zone_logistics = 70, zone_policy = 80 \<rparr>"
| "REGULATORY_ZONES WestCoast = \<lparr> zone_governmental = 65, zone_logistics = 75, zone_policy = 90 \<rparr>"
| "REGULATORY_ZONES Southeast = \<lparr> zone_governmental = 80, zone_logistics = 80, zone_policy = 70 \<rparr>"

datatype Infrastructure = Port | Highway | Rail | Pipeline | PowerGrid

record InfrastructureFactor =
  factor_logistics :: real
  factor_governmental :: real

fun INFRASTRUCTURE_FACTORS :: "Infrastructure \<Rightarrow> InfrastructureFactor" where
  "INFRASTRUCTURE_FACTORS Port = \<lparr> factor_logistics = 25, factor_governmental = 5 \<rparr>"
| "INFRASTRUCTURE_FACTORS Highway = \<lparr> factor_logistics = 15, factor_governmental = 0 \<rparr>"
| "INFRASTRUCTURE_FACTORS Rail = \<lparr> factor_logistics = 20, factor_governmental = 0 \<rparr>"
| "INFRASTRUCTURE_FACTORS Pipeline = \<lparr> factor_logistics = 30, factor_governmental = 10 \<rparr>"
| "INFRASTRUCTURE_FACTORS PowerGrid = \<lparr> factor_logistics = 10, factor_governmental = 5 \<rparr>"

record ScoringFactors =
  governmental :: real
  logistics :: real
  policyIncentives :: real
  communityReadiness :: real

datatype PopulationDensity = Low | Medium | High

text \<open>\<open>Omit<GeographicContext, "region">\<close>, the result type of \<open>getInfrastructureContext\<close>.\<close>

record InfrastructureContext =
  infra_nearPort :: bool
  infra_nearHighway :: bool
  infra_nearRail :: bool
  infra_nearPipeline :: bool
  infra_nearPowerGrid :: bool
  infra_populationDensity :: PopulationDensity
  infra_industrialZoning :: bool

record GeographicContext =
  region :: Region
  nearPort :: bool
  nearHighway :: bool
  nearRail :: bool
  nearPipeline :: bool
  nearPowerGrid :: bool
  populationDensity :: PopulationDensity
  industrialZoning :: bool

section \<open>Geodesy\<close>

definition calculateDistance :: "real \<Rightarrow> real \<Rightarrow> real \<Rightarrow> real \<Rightarrow> real" where
  "calculateDistance lat1 lon1 lat2 lon2 =
     (let R = 6371;
          dLat = ((lat2 - lat1) * pi) / 180;
          dLon = ((lon2 - lon1) * pi) / 180;
          a = sin (dLat / 2) * sin (dLat / 2) +
              cos ((lat1 * pi) / 180) * cos ((lat2 * pi) / 180) * sin (dLon / 2) * sin (dLon / 2);
          c = 2 * atan2 (sqrt a) (sqrt (1 - a))
      in R * c)"

section \<open>Regional classifier\<close>

definition getGeographicRegion :: "jsnum \<Rightarrow> jsnum \<Rightarrow> Region" where
  "getGeographicRegion lat lon =
     (if js_ge lat 25 \<and> js_le lat 32 \<and> js_ge lon (-97) \<and> js_le lon (-87) then GulfCoast
      else if js_ge lat 38 \<and> js_le lat 47 \<and> js_ge lon (-90) \<and> js_le lon (-80) then Midwest
      else if js_ge lat 39 \<and> js_le lat 45 \<and> js_ge lon (-80) \<and> js_le lon (-69) then Northeast
      else if js_ge lat 32 \<and> js_le lat 49 \<and> js_ge lon (-125) \<and> js_le lon (-114) then WestCoast
      else Southeast)"

text \<open>
  \<open>getInfrastructureContext\<close> calls \<open>Math.random()\<close>, the ambient generator of the runtime:
  the function takes no seed and no generator. The values the generator returns are the
  sequence \<open>draws\<close>, and the number of values already taken is a cursor that every function
  which draws takes and returns. The calls are made in the order of the source, and the two
  calls that JavaScript skips (the right operand of \<open>&&\<close> when \<open>isCoastal\<close> is false, the
  inner conditional when \<open>isUrban\<close> is true) take no value.
\<close>

definition getInfrastructureContext ::
  "(nat \<Rightarrow> real) \<Rightarrow> nat \<Rightarrow> jsnum \<Rightarrow> jsnum \<Rightarrow> InfrastructureContext \<times> nat" where
  "getInfrastructureContext draws n lat lon =
     (let isCoastal = (js_gt (js_abs lon) 80 \<and> (js_lt lat 35 \<or> js_gt lat 45));
          isUrban = (draws n > 0.6);
          n1 = n + 1;
          port = (isCoastal \<and> draws n1 > 0.4);
          n2 = (if isCoastal then n1 + 1 else n1);
          highway = (draws n2 > 0.3);
          n3 = n2 + 1;
          rail = (draws n3 > 0.5);
          n4 = n3 + 1;
          pipeline = (draws n4 > 0.4);
          n5 = n4 + 1;
          powerGrid = (draws n5 > 0.2);
          n6 = n5 + 1;
          density = (if isUrban then High else if draws n6 > 0.5 then Medium else Low);
          n7 = (if isUrban then n6 else n6 + 1);
          zoning = (draws n7 > 0.4);
          n8 = n7 + 1
      in (\<lparr> infra_nearPort = port, infra_nearHighway = highway, infra_nearRail = rail,
             infra_nearPipeline = pipeline, infra_nearPowerGrid = powerGrid,
             infra_populationDensity = density, infra_industrialZoning = zoning \<rparr>, n8))"

section \<open>Scoring model\<close>

definition calculateGovernmentalScore :: "GeographicContext \<Rightarrow> real" where
  "calculateGovernmentalScore context =
     (let score = zone_governmental (REGULATORY_ZONES (region context));
          score = (if industrialZoning context then score + 10 else score - 15);
          score = (case populationDensity context of
                     Low \<Rightarrow> score + 5 | Medium \<Rightarrow> score - 5 | High \<Rightarrow> score - 15);
          score = (if nearPort context
                   then score + factor_governmental (INFRASTRUCTURE_FACTORS Port) else score);
          score = (if nearPipeline context
                   then score + factor_governmental (INFRASTRUCTURE_FACTORS Pipeline) else score);
          score = (if nearPowerGrid context
                   then score + factor_governmental (INFRASTRUCTURE_FACTORS PowerGrid) else score)
      in max 0 (min 100 score))"

definition calculateLogisticsScore :: "GeographicContext \<Rightarrow> real" where
  "calculateLogisticsScore context =
     (let score = zone_logistics (REGULATORY_ZONES (region context));
          score = (if nearPort context
                   then score + factor_logistics (INFRASTRUCTURE_FACTORS Port) else score);
          score = (if nearHighway context
                   then score + factor_logistics (INFRASTRUCTURE_FACTORS Highway) else score);
          score = (if nearRail context
                   then score + factor_logistics (INFRASTRUCTURE_FACTORS Rail) else score);
          score = (if nearPipeline context
                   then score + factor_logistics (INFRASTRUCTURE_FACTORS Pipeline) else score);
          score = (if nearPowerGrid context
                   then score + factor_logistics (INFRASTRUCTURE_FACTORS PowerGrid) else score);
          score = (if populationDensity context = High then score - 10 else score)
      in max 0 (min 100 score))"

definition calculatePolicyIncentivesScore :: "GeographicContext \<Rightarrow> real" where
  "calculatePolicyIncentivesScore context =
     (let score = zone_policy (REGULATORY_ZONES (region context));
          score = (if industrialZoning context then score + 15 else score);
          score = (case populationDensity context of
                     Low \<Rightarrow> score + 10 | Medium \<Rightarrow> score + 5 | High \<Rightarrow> score - 5)
      in max 0 (min 100 score))"

definition calculateCommunityReadinessScore :: "GeographicContext \<Rightarrow> real" where
  "calculateCommunityReadinessScore context =
     (let score = 50;
          score = (if industrialZoning context then score + 20 else score);
          score = (case populationDensity context of
                     Low \<Rightarrow> score + 15 | Medium \<Rightarrow> score + 5 | High \<Rightarrow> score - 20);
          score = (if nearPort context \<or> nearRail context \<or> nearPipeline context
                   then score + 10 else score)
      in max 0 (min 100 score))"

definition calculateSiteScores ::
  "(nat \<Rightarrow> real) \<Rightarrow> nat \<Rightarrow> jsnum \<Rightarrow> jsnum \<Rightarrow> ScoringFactors \<times> nat" where
  "calculateSiteScores draws n lat lon =
     (let region = getGeographicRegion lat lon;
          (infraContext, n') = getInfrastructureContext draws n lat lon;
          context = \<lparr> region = region,
                      nearPort = infra_nearPort infraContext,
                      nearHighway = infra_nearHighway infraContext,
                      nearRail = infra_nearRail infraContext,
                      nearPipeline = infra_nearPipeline infraContext,
                      nearPowerGrid = infra_nearPowerGrid infraContext,
                      populationDensity = infra_populationDensity infraContext,
                      industrialZoning = infra_industrialZoning infraContext \<rparr>
      in (\<lparr> governmental = calculateGovernmentalScore context,
             logistics = calculateLogisticsScore context,
             policyIncentives = calculatePolicyIncentivesScore context,
             communityReadiness = calculateCommunityReadinessScore context \<rparr>, n'))"

text \<open>
  \<open>calculateOverallScore\<close> reads the module-level table \<open>SCORING_WEIGHTS\<close>. The table is
  the parameter \<open>w\<close> here and in the functions that call it; the code is the instance at
  \<open>SCORING_WEIGHTS\<close>.
\<close>

definition calculateOverallScore :: "ScoringWeights \<Rightarrow> ScoringFactors \<Rightarrow> real" where
  "calculateOverallScore w scores =
     of_int (round (governmental scores * weight_governmental w +
                    logistics scores * weight_logistics w +
                    policyIncentives scores * weight_policyIncentives w +
                    communityReadiness scores * weight_communityReadiness w))"

section \<open>Synergy analyzer\<close>

definition analyzeFacilitySynergies ::
  "AceticAcidFacility list \<Rightarrow> CO2EmitterFacility list \<Rightarrow> real" where
  "analyzeFacilitySynergies aceticFacilities co2Facilities =
     (let synergyScore = 0;
          totalAceticCapacity = foldl (\<lambda>sum f. sum + capacity f) 0 aceticFacilities;
          synergyScore = (if totalAceticCapacity > 400000 then synergyScore + 10 else synergyScore);
          totalCO2Emissions = foldl (\<lambda>sum f. sum + co2EmissionRate f) 0 co2Facilities;
          synergyScore = (if totalCO2Emissions > 2000000 then synergyScore + 10 else synergyScore);
          facilityTypes = set (map facilityType co2Facilities);
          synergyScore = synergyScore + min (real (card facilityTypes) * 3) 15
      in min synergyScore 25)"

section \<open>Site generator\<close>

text \<open>The decimal digits of a number, as the template literal \<open>`site-${siteId++}`\<close> prints them.\<close>

fun digits :: "nat \<Rightarrow> string" where
  "digits n =
     (if n < 10 then [''0123456789'' ! n]
      else digits (n div 10) @ [''0123456789'' ! (n mod 10)])"

text \<open>
  \<open>Array.prototype.sort\<close> with a comparator: the sort is stable, and \<open>x\<close> goes before \<open>y\<close>
  when \<open>cmp x y < 0\<close>. A stable sort has one result, which insertion from the right computes.
\<close>

fun array_insert :: "('a \<Rightarrow> 'a \<Rightarrow> real) \<Rightarrow> 'a \<Rightarrow> 'a list \<Rightarrow> 'a list" where
  "array_insert cmp x [] = [x]"
| "array_insert cmp x (y # ys) =
     (if cmp x y \<le> 0 then x # y # ys else y # array_insert cmp x ys)"

definition array_sort :: "('a \<Rightarrow> 'a \<Rightarrow> real) \<Rightarrow> 'a list \<Rightarrow> 'a list" where
  "array_sort cmp xs = foldr (array_insert cmp) xs []"

text \<open>
  The local variables that the two nested \<open>forEach\<close> callbacks update: the array \<open>sites\<close>,
  the counter \<open>siteId\<close>, and the cursor of \<open>Math.random\<close>.
\<close>

record GenState =
  cursor :: nat
  siteId :: nat
  sites :: "OverlapSite list"

text \<open>The body of the inner callback, for one acetic facility and one CO2 facility.\<close>

definition processPair ::
  "ScoringWeights \<Rightarrow> (nat \<Rightarrow> real) \<Rightarrow> real \<Rightarrow> real \<Rightarrow>
   AceticAcidFacility \<Rightarrow> CO2EmitterFacility \<Rightarrow> GenState \<Rightarrow> GenState" where
  "processPair w draws maxDistance minScore aceticFacility co2Facility st =
     (let dist = calculateDistance (acetic_latitude aceticFacility) (acetic_longitude aceticFacility)
                   (co2_latitude co2Facility) (co2_longitude co2Facility)
      in if dist \<le> maxDistance then
           (let aceticWeight = capacity aceticFacility / 1000000;
                co2Weight = co2EmissionRate co2Facility / 10000000;
                totalWeight = aceticWeight + co2Weight;
                optimalLat = js_divide (acetic_latitude aceticFacility * aceticWeight +
                                        co2_latitude co2Facility * co2Weight) totalWeight;
                optimalLon = js_divide (acetic_longitude aceticFacility * aceticWeight +
                                        co2_longitude co2Facility * co2Weight) totalWeight;
                (scores, n') = calculateSiteScores draws (cursor st) optimalLat optimalLon;
                synergyBonus = analyzeFacilitySynergies [aceticFacility] [co2Facility];
                adjustedScores = scores
                  \<lparr> governmental := min 100 (governmental scores + synergyBonus * 0.3),
                    logistics := min 100 (logistics scores + synergyBonus * 0.4) \<rparr>;
                overall = calculateOverallScore w adjustedScores
            in if overall \<ge> minScore then
                 st \<lparr> cursor := n',
                      siteId := siteId st + 1,
                      sites := sites st @
                        [\<lparr> site_id = ''site-'' @ digits (siteId st),
                           latitude = optimalLat,
                           longitude = optimalLon,
                           aceticAcidFacilities = [acetic_id aceticFacility],
                           co2EmitterFacilities = [co2_id co2Facility],
                           distance = of_int (round (dist * 100)) / 100,
                           governmentalScore = governmental adjustedScores,
                           logisticsScore = logistics adjustedScores,
                           policyIncentivesScore = policyIncentives adjustedScores,
                           communityReadinessScore = communityReadiness adjustedScores,
                           overallScore = overall \<rparr>] \<rparr>
               else st \<lparr> cursor := n' \<rparr>)
         else st)"

text \<open>The two loops, before the sort: the sites in the order in which they are pushed.\<close>

definition enumerateSites ::
  "ScoringWeights \<Rightarrow> (nat \<Rightarrow> real) \<Rightarrow> AceticAcidFacility list \<Rightarrow> CO2EmitterFacility list \<Rightarrow>
   real \<Rightarrow> real \<Rightarrow> GenState" where
  "enumerateSites w draws aceticFacilities co2Facilities maxDistance minScore =
     fold (\<lambda>aceticFacility.
             fold (processPair w draws maxDistance minScore aceticFacility) co2Facilities)
          aceticFacilities
          \<lparr> cursor = 0, siteId = 1, sites = [] \<rparr>"

text \<open>
  The parameters \<open>maxDistance\<close> and \<open>minScore\<close> have the defaults 50 and 0 in the source; a
  caller that omits them passes these values.
\<close>

definition generateSiteRecommendations ::
  "ScoringWeights \<Rightarrow> (nat \<Rightarrow> real) \<Rightarrow> AceticAcidFacility list \<Rightarrow> CO2EmitterFacility list \<Rightarrow>
   real \<Rightarrow> real \<Rightarrow> OverlapSite list" where
  "generateSiteRecommendations w draws aceticFacilities co2Facilities maxDistance minScore =
     array_sort (\<lambda>a b. overallScore b - overallScore a)
       (sites (enumerateSites w draws aceticFacilities co2Facilities maxDistance minScore))"

section \<open>The specification's formulas\<close>

text \<open>
  The definitions of this section are written from the specification, not from the code;
  the theorems below compare them with the code.
\<close>



text \<open>The adjustment table of the scoring model, row by row.\<close>

definition spec_clamp :: "real \<Rightarrow> real" where
  "spec_clamp x = max 0 (min 100 x)"

definition spec_governmental :: "GeographicContext \<Rightarrow> real" where
  "spec_governmental ctx =
     spec_clamp (zone_governmental (REGULATORY_ZONES (region ctx))
       + (if industrialZoning ctx then 10 else - 15)
       + (case populationDensity ctx of Low \<Rightarrow> 5 | Medium \<Rightarrow> - 5 | High \<Rightarrow> - 15)
       + (if nearPort ctx then 5 else 0)
       + (if nearPipeline ctx then 10 else 0)
       + (if nearPowerGrid ctx then 5 else 0))"

definition spec_logistics :: "GeographicContext \<Rightarrow> real" where
  "spec_logistics ctx =
     spec_clamp (zone_logistics (REGULATORY_ZONES (region ctx))
       + (if nearPort ctx then 25 else 0)
       + (if nearHighway ctx then 15 else 0)
       + (if nearRail ctx then 20 else 0)
       + (if nearPipeline ctx then 30 else 0)
       + (if nearPowerGrid ctx then 10 else 0)
       + (if populationDensity ctx = High then - 10 else 0))"

definition spec_policyIncentives :: "GeographicContext \<Rightarrow> real" where
  "spec_policyIncentives ctx =
     spec_clamp (zone_policy (REGULATORY_ZONES (region ctx))
       + (if industrialZoning ctx then 15 else 0)
       + (case populationDensity ctx of Low \<Rightarrow> 10 | Medium \<Rightarrow> 5 | High \<Rightarrow> - 5))"

definition spec_communityReadiness :: "GeographicContext \<Rightarrow> real" where
  "spec_communityReadiness ctx =
     spec_clamp (50
       + (if industrialZoning ctx then 20 else 0)
       + (case populationDensity ctx of Low \<Rightarrow> 15 | Medium \<Rightarrow> 5 | High \<Rightarrow> - 20)
       + (if nearPort ctx \<or> nearRail ctx \<or> nearPipeline ctx then 10 else 0))"


section \<open>Names for the parts of the inner callback\<close>

text \<open>
  The values that \<open>processPair\<close> computes for a pair, as functions of the pair, of the cursor
  \<open>n\<close> and of the counter \<open>k\<close>. Lemma \<open>processPair_eq\<close> below shows that they are the values of
  the callback.
\<close>

definition pairDistance :: "AceticAcidFacility \<Rightarrow> CO2EmitterFacility \<Rightarrow> real" where
  "pairDistance a c =
     calculateDistance (acetic_latitude a) (acetic_longitude a) (co2_latitude c) (co2_longitude c)"

definition pairLatitude :: "AceticAcidFacility \<Rightarrow> CO2EmitterFacility \<Rightarrow> jsnum" where
  "pairLatitude a c =
     js_divide (acetic_latitude a * (capacity a / 1000000) +
                co2_latitude c * (co2EmissionRate c / 10000000))
               (capacity a / 1000000 + co2EmissionRate c / 10000000)"

definition pairLongitude :: "AceticAcidFacility \<Rightarrow> CO2EmitterFacility \<Rightarrow> jsnum" where
  "pairLongitude a c =
     js_divide (acetic_longitude a * (capacity a / 1000000) +
                co2_longitude c * (co2EmissionRate c / 10000000))
               (capacity a / 1000000 + co2EmissionRate c / 10000000)"

definition pairScores ::
  "(nat \<Rightarrow> real) \<Rightarrow> nat \<Rightarrow> AceticAcidFacility \<Rightarrow> CO2EmitterFacility \<Rightarrow> ScoringFactors" where
  "pairScores draws n a c =
     (let scores = fst (calculateSiteScores draws n (pairLatitude a c) (pairLongitude a c));
          synergyBonus = analyzeFacilitySynergies [a] [c]
      in \<lparr> governmental = min 100 (governmental scores + synergyBonus * 0.3),
           logistics = min 100 (logistics scores + synergyBonus * 0.4),
           policyIncentives = policyIncentives scores,
           communityReadiness = communityReadiness scores \<rparr>)"

definition pairCursor ::
  "(nat \<Rightarrow> real) \<Rightarrow> nat \<Rightarrow> AceticAcidFacility \<Rightarrow> CO2EmitterFacility \<Rightarrow> nat" where
  "pairCursor draws n a c =
     snd (calculateSiteScores draws n (pairLatitude a c) (pairLongitude a c))"

definition pairSite ::
  "ScoringWeights \<Rightarrow> (nat \<Rightarrow> real) \<Rightarrow> nat \<Rightarrow> nat \<Rightarrow>
   AceticAcidFacility \<Rightarrow> CO2EmitterFacility \<Rightarrow> OverlapSite" where
  "pairSite w draws n k a c =
     \<lparr> site_id = ''site-'' @ digits k,
       latitude = pairLatitude a c,
       longitude = pairLongitude a c,
       aceticAcidFacilities = [acetic_id a],
       co2EmitterFacilities = [co2_id c],
       distance = of_int (round (pairDistance a c * 100)) / 100,
       governmentalScore = governmental (pairScores draws n a c),
       logisticsScore = logistics (pairScores draws n a c),
       policyIncentivesScore = policyIncentives (pairScores draws n a c),
       communityReadinessScore = communityReadiness (pairScores draws n a c),
       overallScore = calculateOverallScore w (pairScores draws n a c) \<rparr>"

definition emitted ::
  "ScoringWeights \<Rightarrow> (nat \<Rightarrow> real) \<Rightarrow> real \<Rightarrow> real \<Rightarrow>
   AceticAcidFacility \<Rightarrow> CO2EmitterFacility \<Rightarrow> OverlapSite \<Rightarrow> bool" where
  "emitted w draws maxD minS a c s \<longleftrightarrow>
     pairDistance a c \<le> maxD \<and> minS \<le> overallScore s \<and>
     (\<exists>n k. s = pairSite w draws n k a c)"

section \<open>Concrete inputs\<close>

text \<open>
  The pair of the specification's scenario: two facilities at the same coordinate in Houston.
\<close>

definition houston_acetic :: AceticAcidFacility where
  "houston_acetic =
     \<lparr> acetic_id = ''acetic-1'', acetic_name = ''Houston acetic acid plant'',
       acetic_latitude = 29.7604, acetic_longitude = - 95.3698, capacity = 500000,
       acetic_operationalStatus = Active, acetic_lastUpdated = ''2024-01-01'' \<rparr>"

definition houston_co2 :: CO2EmitterFacility where
  "houston_co2 =
     \<lparr> co2_id = ''co2-1'', co2_name = ''Houston petrochemical complex'',
       co2_latitude = 29.7604, co2_longitude = - 95.3698, co2EmissionRate = 2500000,
       facilityType = Petrochemical, co2_operationalStatus = Active,
       co2_lastUpdated = ''2024-01-01'' \<rparr>"



text \<open>
  Two sequences of values of \<open>Math.random\<close>: one that returns the same value at every call,
  and one that returns a first value at the first eight calls and a second value afterwards.
\<close>

definition constant_draws :: "real \<Rightarrow> nat \<Rightarrow> real" where
  "constant_draws r k = r"

definition switching_draws :: "real \<Rightarrow> real \<Rightarrow> nat \<Rightarrow> real" where
  "switching_draws r1 r2 k = (if k < 8 then r1 else r2)"

section \<open>Geodesy: symmetry, zero, sign, and the Haversine formula\<close>




lemma calculateDistance_same: "calculateDistance la lo la lo = 0"
  by (simp add: calculateDistance_def atan2_def Let_def)









section \<open>Scoring model: the code and the adjustment table\<close>

lemma governmental_table: "calculateGovernmentalScore ctx = spec_governmental ctx"
  unfolding calculateGovernmentalScore_def spec_governmental_def spec_clamp_def Let_def
  by (cases "populationDensity ctx"; cases "industrialZoning ctx"; cases "nearPort ctx";
      cases "nearPipeline ctx"; cases "nearPowerGrid ctx"; simp add: ac_simps)

lemma logistics_table: "calculateLogisticsScore ctx = spec_logistics ctx"
  unfolding calculateLogisticsScore_def spec_logistics_def spec_clamp_def Let_def
  by (cases "populationDensity ctx = High"; cases "nearHighway ctx"; cases "nearPort ctx";
      cases "nearPipeline ctx"; cases "nearPowerGrid ctx"; cases "nearRail ctx";
      simp add: ac_simps)

lemma policyIncentives_table: "calculatePolicyIncentivesScore ctx = spec_policyIncentives ctx"
  unfolding calculatePolicyIncentivesScore_def spec_policyIncentives_def spec_clamp_def Let_def
  by (cases "populationDensity ctx"; cases "industrialZoning ctx"; simp add: ac_simps)

lemma communityReadiness_table:
  "calculateCommunityReadinessScore ctx = spec_communityReadiness ctx"
  unfolding calculateCommunityReadinessScore_def spec_communityReadiness_def spec_clamp_def Let_def
  by (cases "populationDensity ctx"; cases "industrialZoning ctx";
      cases "nearPort ctx \<or> nearRail ctx \<or> nearPipeline ctx"; simp add: ac_simps)

text \<open>
  C7: for every context, each of the four sub-scores of the code is its base (the zone's
  entry of \<open>REGULATORY_ZONES\<close>, or 50 for community readiness) plus the adjustments of the
  specification's table, clamped to the interval from 0 to 100.
\<close>

theorem scores_follow_adjustment_table:
  "calculateGovernmentalScore ctx = spec_governmental ctx
   \<and> calculateLogisticsScore ctx = spec_logistics ctx
   \<and> calculatePolicyIncentivesScore ctx = spec_policyIncentives ctx
   \<and> calculateCommunityReadinessScore ctx = spec_communityReadiness ctx"
  using governmental_table [of ctx] logistics_table [of ctx] policyIncentives_table [of ctx]
    communityReadiness_table [of ctx]
  by (intro conjI)

section \<open>The site generator: what the loops push\<close>

lemma adjusted_eq:
  "scores \<lparr> governmental := g, logistics := l \<rparr> =
   \<lparr> governmental = g, logistics = l, policyIncentives = policyIncentives scores,
     communityReadiness = communityReadiness scores \<rparr>"
  by simp

lemma processPair_eq:
  "processPair w draws maxD minS a c st =
     (if pairDistance a c \<le> maxD then
        (if minS \<le> calculateOverallScore w (pairScores draws (cursor st) a c) then
           st \<lparr> cursor := pairCursor draws (cursor st) a c,
                siteId := siteId st + 1,
                sites := sites st @ [pairSite w draws (cursor st) (siteId st) a c] \<rparr>
         else st \<lparr> cursor := pairCursor draws (cursor st) a c \<rparr>)
      else st)"
  unfolding processPair_def pairDistance_def [symmetric] Let_def case_prod_beta
    pairLatitude_def [symmetric] pairLongitude_def [symmetric] adjusted_eq
  unfolding pairSite_def pairScores_def pairCursor_def Let_def
  by simp

lemma overallScore_pairSite:
  "overallScore (pairSite w draws n k a c) = calculateOverallScore w (pairScores draws n a c)"
  by (simp add: pairSite_def)

lemma pairSite_ids:
  "aceticAcidFacilities (pairSite w draws n k a c) = [acetic_id a]"
  "co2EmitterFacilities (pairSite w draws n k a c) = [co2_id c]"
  by (simp_all add: pairSite_def)

lemma pairSite_fields:
  "latitude (pairSite w draws n k a c) = pairLatitude a c"
  "longitude (pairSite w draws n k a c) = pairLongitude a c"
  "distance (pairSite w draws n k a c) = of_int (round (pairDistance a c * 100)) / 100"
  "governmentalScore (pairSite w draws n k a c) = governmental (pairScores draws n a c)"
  "logisticsScore (pairSite w draws n k a c) = logistics (pairScores draws n a c)"
  "policyIncentivesScore (pairSite w draws n k a c) = policyIncentives (pairScores draws n a c)"
  "communityReadinessScore (pairSite w draws n k a c) = communityReadiness (pairScores draws n a c)"
  "site_id (pairSite w draws n k a c) = ''site-'' @ digits k"
  by (simp_all add: pairSite_def)

lemma pairScores_fields:
  "governmental (pairScores draws n a c) =
     min 100 (governmental (fst (calculateSiteScores draws n (pairLatitude a c) (pairLongitude a c)))
              + analyzeFacilitySynergies [a] [c] * 0.3)"
  "logistics (pairScores draws n a c) =
     min 100 (logistics (fst (calculateSiteScores draws n (pairLatitude a c) (pairLongitude a c)))
              + analyzeFacilitySynergies [a] [c] * 0.4)"
  "policyIncentives (pairScores draws n a c) =
     policyIncentives (fst (calculateSiteScores draws n (pairLatitude a c) (pairLongitude a c)))"
  "communityReadiness (pairScores draws n a c) =
     communityReadiness (fst (calculateSiteScores draws n (pairLatitude a c) (pairLongitude a c)))"
  by (simp_all add: pairScores_def Let_def)

lemma emittedE:
  assumes "emitted w draws maxD minS a c s"
  obtains n k where "s = pairSite w draws n k a c"
  using assms unfolding emitted_def by (elim conjE exE)

lemma processPair_member:
  assumes "s \<in> set (sites (processPair w draws maxD minS a c st))"
  shows "s \<in> set (sites st) \<or> emitted w draws maxD minS a c s"
proof (cases "pairDistance a c \<le> maxD \<and>
              minS \<le> calculateOverallScore w (pairScores draws (cursor st) a c)")
  case True
  then have "sites (processPair w draws maxD minS a c st) =
             sites st @ [pairSite w draws (cursor st) (siteId st) a c]"
    by (simp add: processPair_eq)
  with assms have "s \<in> set (sites st) \<or> s = pairSite w draws (cursor st) (siteId st) a c"
    by auto
  then show ?thesis
  proof
    assume "s \<in> set (sites st)"
    then show ?thesis ..
  next
    assume e: "s = pairSite w draws (cursor st) (siteId st) a c"
    have "emitted w draws maxD minS a c s"
      unfolding emitted_def using True e overallScore_pairSite by auto
    then show ?thesis ..
  qed
next
  case False
  then have "sites (processPair w draws maxD minS a c st) = sites st"
    by (auto simp: processPair_eq)
  with assms show ?thesis by simp
qed

lemma inner_member:
  "s \<in> set (sites (fold (processPair w draws maxD minS a) cs st)) \<Longrightarrow>
   s \<in> set (sites st) \<or> (\<exists>c\<in>set cs. emitted w draws maxD minS a c s)"
proof (induction cs arbitrary: st)
  case Nil
  then show ?case by simp
next
  case (Cons c cs)
  from Cons.prems have "s \<in> set (sites (fold (processPair w draws maxD minS a) cs
                                     (processPair w draws maxD minS a c st)))" by simp
  from Cons.IH [OF this] show ?case
    using processPair_member [of s w draws maxD minS a c st] by auto
qed

lemma outer_member:
  "s \<in> set (sites (fold (\<lambda>a. fold (processPair w draws maxD minS a) cs) as st)) \<Longrightarrow>
   s \<in> set (sites st) \<or> (\<exists>a\<in>set as. \<exists>c\<in>set cs. emitted w draws maxD minS a c s)"
proof (induction as arbitrary: st)
  case Nil
  then show ?case by simp
next
  case (Cons a as)
  from Cons.prems have "s \<in> set (sites (fold (\<lambda>a. fold (processPair w draws maxD minS a) cs) as
                                     (fold (processPair w draws maxD minS a) cs st)))" by simp
  from Cons.IH [OF this] show ?case
    using inner_member [of s w draws maxD minS a cs st] by auto
qed

lemma set_array_insert: "set (array_insert cmp x xs) = insert x (set xs)"
  by (induction xs) auto

lemma set_array_sort: "set (array_sort cmp xs) = set xs"
  by (induction xs) (simp_all add: array_sort_def set_array_insert)

lemma enumerate_member:
  assumes "s \<in> set (sites (enumerateSites w draws as cs maxD minS))"
  shows "\<exists>a\<in>set as. \<exists>c\<in>set cs. emitted w draws maxD minS a c s"
  using assms outer_member [of s w draws maxD minS cs as "\<lparr>cursor = 0, siteId = 1, sites = []\<rparr>"]
  by (simp add: enumerateSites_def)

lemma generate_member:
  assumes "s \<in> set (generateSiteRecommendations w draws as cs maxD minS)"
  shows "\<exists>a\<in>set as. \<exists>c\<in>set cs. emitted w draws maxD minS a c s"
  using assms enumerate_member [of s w draws as cs maxD minS]
  by (simp add: generateSiteRecommendations_def set_array_sort)

lemma emitted_ids:
  assumes "emitted w draws maxD minS a c s"
  shows "aceticAcidFacilities s = [acetic_id a] \<and> co2EmitterFacilities s = [co2_id c]"
proof -
  from assms obtain n k where "s = pairSite w draws n k a c" by (rule emittedE)
  then show ?thesis by (simp only: pairSite_ids)
qed

lemma score_clamped:
  "0 \<le> calculateGovernmentalScore ctx" "calculateGovernmentalScore ctx \<le> 100"
  "0 \<le> calculateLogisticsScore ctx" "calculateLogisticsScore ctx \<le> 100"
  "0 \<le> calculatePolicyIncentivesScore ctx" "calculatePolicyIncentivesScore ctx \<le> 100"
  "0 \<le> calculateCommunityReadinessScore ctx" "calculateCommunityReadinessScore ctx \<le> 100"
  unfolding calculateGovernmentalScore_def calculateLogisticsScore_def
    calculatePolicyIncentivesScore_def calculateCommunityReadinessScore_def Let_def
  by simp_all

lemma calculateSiteScores_fields:
  "\<exists>ctx. governmental (fst (calculateSiteScores draws n lat lon)) = calculateGovernmentalScore ctx
       \<and> logistics (fst (calculateSiteScores draws n lat lon)) = calculateLogisticsScore ctx
       \<and> policyIncentives (fst (calculateSiteScores draws n lat lon)) = calculatePolicyIncentivesScore ctx
       \<and> communityReadiness (fst (calculateSiteScores draws n lat lon)) = calculateCommunityReadinessScore ctx
       \<and> region ctx = getGeographicRegion lat lon"
  unfolding calculateSiteScores_def Let_def case_prod_beta
  by (intro exI [of _ "\<lparr> region = getGeographicRegion lat lon,
         nearPort = infra_nearPort (fst (getInfrastructureContext draws n lat lon)),
         nearHighway = infra_nearHighway (fst (getInfrastructureContext draws n lat lon)),
         nearRail = infra_nearRail (fst (getInfrastructureContext draws n lat lon)),
         nearPipeline = infra_nearPipeline (fst (getInfrastructureContext draws n lat lon)),
         nearPowerGrid = infra_nearPowerGrid (fst (getInfrastructureContext draws n lat lon)),
         populationDensity = infra_populationDensity (fst (getInfrastructureContext draws n lat lon)),
         industrialZoning = infra_industrialZoning (fst (getInfrastructureContext draws n lat lon)) \<rparr>"])
     simp

lemma calculateSiteScores_range:
  "0 \<le> governmental (fst (calculateSiteScores draws n lat lon))"
  "governmental (fst (calculateSiteScores draws n lat lon)) \<le> 100"
  "0 \<le> logistics (fst (calculateSiteScores draws n lat lon))"
  "logistics (fst (calculateSiteScores draws n lat lon)) \<le> 100"
  "0 \<le> policyIncentives (fst (calculateSiteScores draws n lat lon))"
  "policyIncentives (fst (calculateSiteScores draws n lat lon)) \<le> 100"
  "0 \<le> communityReadiness (fst (calculateSiteScores draws n lat lon))"
  "communityReadiness (fst (calculateSiteScores draws n lat lon)) \<le> 100"
  using calculateSiteScores_fields [of draws n lat lon] score_clamped by auto

lemma synergy_range:
  "0 \<le> analyzeFacilitySynergies as cs" "analyzeFacilitySynergies as cs \<le> 25"
  by (simp_all add: analyzeFacilitySynergies_def Let_def)

lemma pairScores_range:
  "0 \<le> governmental (pairScores draws n a c)" "governmental (pairScores draws n a c) \<le> 100"
  "0 \<le> logistics (pairScores draws n a c)" "logistics (pairScores draws n a c) \<le> 100"
  "0 \<le> policyIncentives (pairScores draws n a c)" "policyIncentives (pairScores draws n a c) \<le> 100"
  "0 \<le> communityReadiness (pairScores draws n a c)" "communityReadiness (pairScores draws n a c) \<le> 100"
  unfolding pairScores_fields
  using calculateSiteScores_range [of draws n "pairLatitude a c" "pairLongitude a c"]
    synergy_range [of "[a]" "[c]"]
  by simp_all

lemma single_pair_run:
  "generateSiteRecommendations w draws [a] [c] maxD minS =
     (if pairDistance a c \<le> maxD \<and> minS \<le> calculateOverallScore w (pairScores draws 0 a c)
      then [pairSite w draws 0 1 a c] else [])"
  by (simp add: generateSiteRecommendations_def enumerateSites_def processPair_eq array_sort_def)

lemma emitted_overall:
  assumes "emitted w draws maxD minS a c s"
  shows "overallScore s =
           of_int (round (governmentalScore s * weight_governmental w +
                          logisticsScore s * weight_logistics w +
                          policyIncentivesScore s * weight_policyIncentives w +
                          communityReadinessScore s * weight_communityReadiness w))"
proof -
  from assms obtain n k where "s = pairSite w draws n k a c" by (rule emittedE)
  then show ?thesis
    by (simp only: overallScore_pairSite pairSite_fields calculateOverallScore_def)
qed

lemma emitted_range:
  assumes "emitted w draws maxD minS a c s"
  shows "0 \<le> governmentalScore s \<and> governmentalScore s \<le> 100
       \<and> 0 \<le> logisticsScore s \<and> logisticsScore s \<le> 100
       \<and> 0 \<le> policyIncentivesScore s \<and> policyIncentivesScore s \<le> 100
       \<and> 0 \<le> communityReadinessScore s \<and> communityReadinessScore s \<le> 100"
proof -
  from assms obtain n k where "s = pairSite w draws n k a c" by (rule emittedE)
  then show ?thesis
    by (simp only: pairSite_fields pairScores_range simp_thms)
qed

lemma SCORING_WEIGHTS_values:
  "weight_governmental SCORING_WEIGHTS = 0.30" "weight_logistics SCORING_WEIGHTS = 0.25"
  "weight_policyIncentives SCORING_WEIGHTS = 0.25" "weight_communityReadiness SCORING_WEIGHTS = 0.20"
  by (simp_all add: SCORING_WEIGHTS_def)
















section \<open>The scenario of the specification, evaluated\<close>

lemma houston_distance: "pairDistance houston_acetic houston_co2 = 0"
  by (simp add: pairDistance_def houston_acetic_def houston_co2_def calculateDistance_same)

lemma houston_latitude: "pairLatitude houston_acetic houston_co2 = Finite 29.7604"
  by (simp add: pairLatitude_def houston_acetic_def houston_co2_def js_divide_def)

lemma houston_longitude: "pairLongitude houston_acetic houston_co2 = Finite (- 95.3698)"
  by (simp add: pairLongitude_def houston_acetic_def houston_co2_def js_divide_def)

lemma houston_region: "getGeographicRegion (Finite 29.7604) (Finite (- 95.3698)) = GulfCoast"
  by (simp add: getGeographicRegion_def)

lemma houston_synergy: "analyzeFacilitySynergies [houston_acetic] [houston_co2] = 23"
  by (simp add: analyzeFacilitySynergies_def houston_acetic_def houston_co2_def Let_def)

lemma houston_context_high:
  "getInfrastructureContext (constant_draws (9 / 10)) 0 (Finite 29.7604) (Finite (- 95.3698)) =
     (\<lparr> infra_nearPort = True, infra_nearHighway = True, infra_nearRail = True,
        infra_nearPipeline = True, infra_nearPowerGrid = True,
        infra_populationDensity = High, infra_industrialZoning = True \<rparr>, 7)"
  by (simp add: getInfrastructureContext_def constant_draws_def Let_def)

lemma houston_scores_high:
  "calculateSiteScores (constant_draws (9 / 10)) 0 (Finite 29.7604) (Finite (- 95.3698)) =
     (\<lparr> governmental = 100, logistics = 100, policyIncentives = 85, communityReadiness = 60 \<rparr>, 7)"
proof -
  define ctx where "ctx =
     \<lparr> region = GulfCoast, nearPort = True, nearHighway = True, nearRail = True,
       nearPipeline = True, nearPowerGrid = True, populationDensity = High,
       industrialZoning = True \<rparr>"
  have 1: "calculateGovernmentalScore ctx = 100"
    by (simp add: calculateGovernmentalScore_def ctx_def)
  have 2: "calculateLogisticsScore ctx = 100"
    by (simp add: calculateLogisticsScore_def ctx_def)
  have 3: "calculatePolicyIncentivesScore ctx = 85"
    by (simp add: calculatePolicyIncentivesScore_def ctx_def)
  have 4: "calculateCommunityReadinessScore ctx = 60"
    by (simp add: calculateCommunityReadinessScore_def ctx_def)
  show ?thesis
    unfolding calculateSiteScores_def houston_context_high houston_region Let_def
    by (simp only: prod.case InfrastructureContext.select_convs ctx_def [symmetric] 1 2 3 4)
qed

lemma houston_pairScores_high:
  "pairScores (constant_draws (9 / 10)) 0 houston_acetic houston_co2 =
     \<lparr> governmental = 100, logistics = 100, policyIncentives = 85, communityReadiness = 60 \<rparr>"
  unfolding pairScores_def houston_latitude houston_longitude houston_scores_high houston_synergy
  by (simp add: Let_def)

lemma houston_overall_high:
  "calculateOverallScore SCORING_WEIGHTS
     \<lparr> governmental = 100, logistics = 100, policyIncentives = 85, communityReadiness = 60 \<rparr> = 88"
proof -
  have "round (353 / 4 :: real) = 88" by (rule round_unique) simp_all
  then show ?thesis by (simp add: calculateOverallScore_def SCORING_WEIGHTS_def)
qed

lemma houston_run_high:
  "generateSiteRecommendations SCORING_WEIGHTS (constant_draws (9 / 10)) [houston_acetic] [houston_co2] 50 0 =
     [pairSite SCORING_WEIGHTS (constant_draws (9 / 10)) 0 1 houston_acetic houston_co2]"
  unfolding single_pair_run houston_distance houston_pairScores_high houston_overall_high by simp

lemma houston_context_low:
  "getInfrastructureContext (constant_draws 0) 0 (Finite 29.7604) (Finite (- 95.3698)) =
     (\<lparr> infra_nearPort = False, infra_nearHighway = False, infra_nearRail = False,
        infra_nearPipeline = False, infra_nearPowerGrid = False,
        infra_populationDensity = Low, infra_industrialZoning = False \<rparr>, 8)"
  by (simp add: getInfrastructureContext_def constant_draws_def Let_def)

lemma houston_scores_low:
  "calculateSiteScores (constant_draws 0) 0 (Finite 29.7604) (Finite (- 95.3698)) =
     (\<lparr> governmental = 75, logistics = 90, policyIncentives = 85, communityReadiness = 65 \<rparr>, 8)"
proof -
  define ctx where "ctx =
     \<lparr> region = GulfCoast, nearPort = False, nearHighway = False, nearRail = False,
       nearPipeline = False, nearPowerGrid = False, populationDensity = Low,
       industrialZoning = False \<rparr>"
  have 1: "calculateGovernmentalScore ctx = 75"
    by (simp add: calculateGovernmentalScore_def ctx_def)
  have 2: "calculateLogisticsScore ctx = 90"
    by (simp add: calculateLogisticsScore_def ctx_def)
  have 3: "calculatePolicyIncentivesScore ctx = 85"
    by (simp add: calculatePolicyIncentivesScore_def ctx_def)
  have 4: "calculateCommunityReadinessScore ctx = 65"
    by (simp add: calculateCommunityReadinessScore_def ctx_def)
  show ?thesis
    unfolding calculateSiteScores_def houston_context_low houston_region Let_def
    by (simp only: prod.case InfrastructureContext.select_convs ctx_def [symmetric] 1 2 3 4)
qed

lemma houston_pairScores_low:
  "pairScores (constant_draws 0) 0 houston_acetic houston_co2 =
     \<lparr> governmental = 81.9, logistics = 99.2, policyIncentives = 85, communityReadiness = 65 \<rparr>"
  unfolding pairScores_def houston_latitude houston_longitude houston_scores_low houston_synergy
  by (simp add: Let_def)

lemma houston_overall_low:
  "calculateOverallScore SCORING_WEIGHTS
     \<lparr> governmental = 81.9, logistics = 99.2, policyIncentives = 85, communityReadiness = 65 \<rparr> = 84"
proof -
  have "round (4181 / 50 :: real) = 84" by (rule round_unique) simp_all
  then show ?thesis by (simp add: calculateOverallScore_def SCORING_WEIGHTS_def)
qed


lemma houston_run_low:
  "generateSiteRecommendations SCORING_WEIGHTS (constant_draws 0) [houston_acetic] [houston_co2] 50 0 =
     [pairSite SCORING_WEIGHTS (constant_draws 0) 0 1 houston_acetic houston_co2]"
  unfolding single_pair_run houston_distance houston_pairScores_low houston_overall_low by simp


section \<open>Contributor lists\<close>

text \<open>
  C10: every site of a run names exactly one acetic facility and one CO2 facility, the two
  facilities of a pair of the input lists.
\<close>

theorem contributor_lists_singleton:
  "\<forall>s\<in>set (generateSiteRecommendations SCORING_WEIGHTS draws aceticFacilities co2Facilities
              maxDistance minScore).
     \<exists>a\<in>set aceticFacilities. \<exists>c\<in>set co2Facilities.
       aceticAcidFacilities s = [acetic_id a] \<and> co2EmitterFacilities s = [co2_id c]"
proof
  fix s
  assume "s \<in> set (generateSiteRecommendations SCORING_WEIGHTS draws aceticFacilities co2Facilities
                     maxDistance minScore)"
  then obtain a c where "a \<in> set aceticFacilities" "c \<in> set co2Facilities"
    and "emitted SCORING_WEIGHTS draws maxDistance minScore a c s"
    using generate_member by blast
  then show "\<exists>a\<in>set aceticFacilities. \<exists>c\<in>set co2Facilities.
       aceticAcidFacilities s = [acetic_id a] \<and> co2EmitterFacilities s = [co2_id c]"
    using emitted_ids by blast
qed

theorem contributor_lists_singleton_witness:
  "\<exists>s. generateSiteRecommendations SCORING_WEIGHTS (constant_draws (9 / 10))
         [houston_acetic] [houston_co2] 50 0 = [s]
       \<and> aceticAcidFacilities s = [''acetic-1''] \<and> co2EmitterFacilities s = [''co2-1'']"
proof -
  let ?s = "pairSite SCORING_WEIGHTS (constant_draws (9 / 10)) 0 1 houston_acetic houston_co2"
  have ids: "acetic_id houston_acetic = ''acetic-1''" "co2_id houston_co2 = ''co2-1''"
    by (simp_all add: houston_acetic_def houston_co2_def)
  have "\<forall>s\<in>set (generateSiteRecommendations SCORING_WEIGHTS (constant_draws (9 / 10))
                  [houston_acetic] [houston_co2] 50 0).
        aceticAcidFacilities s = [''acetic-1''] \<and> co2EmitterFacilities s = [''co2-1'']"
    using contributor_lists_singleton
      [of "constant_draws (9 / 10)" "[houston_acetic]" "[houston_co2]" 50 0]
    by (simp add: ids)
  then have "aceticAcidFacilities ?s = [''acetic-1''] \<and> co2EmitterFacilities ?s = [''co2-1'']"
    unfolding houston_run_high by simp
  with houston_run_high show ?thesis by blast
qed

section \<open>Sub-scores and the overall score of a site\<close>

text \<open>
  C2: every site of a run has its four sub-scores between 0 and 100, and its overall score is
  the rounded weighted sum of the sub-scores that the site stores, with the weights 0.30,
  0.25, 0.25 and 0.20; the four weights of the table sum to 1.
\<close>

theorem site_scores_in_range_and_weighted:
  "(\<forall>s\<in>set (generateSiteRecommendations SCORING_WEIGHTS draws aceticFacilities co2Facilities
               maxDistance minScore).
      0 \<le> governmentalScore s \<and> governmentalScore s \<le> 100
      \<and> 0 \<le> logisticsScore s \<and> logisticsScore s \<le> 100
      \<and> 0 \<le> policyIncentivesScore s \<and> policyIncentivesScore s \<le> 100
      \<and> 0 \<le> communityReadinessScore s \<and> communityReadinessScore s \<le> 100
      \<and> overallScore s =
          of_int (round (governmentalScore s * 0.30 + logisticsScore s * 0.25 +
                         policyIncentivesScore s * 0.25 + communityReadinessScore s * 0.20)))
   \<and> weight_governmental SCORING_WEIGHTS + weight_logistics SCORING_WEIGHTS +
     weight_policyIncentives SCORING_WEIGHTS + weight_communityReadiness SCORING_WEIGHTS = 1"
proof (intro conjI ballI)
  fix s
  assume "s \<in> set (generateSiteRecommendations SCORING_WEIGHTS draws aceticFacilities co2Facilities
                     maxDistance minScore)"
  then obtain a c where e: "emitted SCORING_WEIGHTS draws maxDistance minScore a c s"
    using generate_member by blast
  note r = emitted_range [OF e]
  from r show "0 \<le> governmentalScore s" by (elim conjE)
  from r show "governmentalScore s \<le> 100" by (elim conjE)
  from r show "0 \<le> logisticsScore s" by (elim conjE)
  from r show "logisticsScore s \<le> 100" by (elim conjE)
  from r show "0 \<le> policyIncentivesScore s" by (elim conjE)
  from r show "policyIncentivesScore s \<le> 100" by (elim conjE)
  from r show "0 \<le> communityReadinessScore s" by (elim conjE)
  from r show "communityReadinessScore s \<le> 100" by (elim conjE)
  from emitted_overall [OF e]
  show "overallScore s =
          of_int (round (governmentalScore s * 0.30 + logisticsScore s * 0.25 +
                         policyIncentivesScore s * 0.25 + communityReadinessScore s * 0.20))"
    by (simp only: SCORING_WEIGHTS_values)
next
  show "weight_governmental SCORING_WEIGHTS + weight_logistics SCORING_WEIGHTS +
     weight_policyIncentives SCORING_WEIGHTS + weight_communityReadiness SCORING_WEIGHTS = 1"
    by (simp add: SCORING_WEIGHTS_def)
qed

theorem site_scores_in_range_and_weighted_witness:
  "\<exists>s. generateSiteRecommendations SCORING_WEIGHTS (constant_draws 0)
         [houston_acetic] [houston_co2] 50 0 = [s]
       \<and> 0 \<le> governmentalScore s \<and> governmentalScore s \<le> 100
       \<and> 0 \<le> logisticsScore s \<and> logisticsScore s \<le> 100
       \<and> 0 \<le> policyIncentivesScore s \<and> policyIncentivesScore s \<le> 100
       \<and> 0 \<le> communityReadinessScore s \<and> communityReadinessScore s \<le> 100
       \<and> overallScore s =
          of_int (round (governmentalScore s * 0.30 + logisticsScore s * 0.25 +
                         policyIncentivesScore s * 0.25 + communityReadinessScore s * 0.20))"
proof -
  let ?s = "pairSite SCORING_WEIGHTS (constant_draws 0) 0 1 houston_acetic houston_co2"
  have "?s \<in> set (generateSiteRecommendations SCORING_WEIGHTS (constant_draws 0)
                    [houston_acetic] [houston_co2] 50 0)"
    unfolding houston_run_low by simp
  with site_scores_in_range_and_weighted
      [of "constant_draws 0" "[houston_acetic]" "[houston_co2]" 50 0]
  have "0 \<le> governmentalScore ?s \<and> governmentalScore ?s \<le> 100
       \<and> 0 \<le> logisticsScore ?s \<and> logisticsScore ?s \<le> 100
       \<and> 0 \<le> policyIncentivesScore ?s \<and> policyIncentivesScore ?s \<le> 100
       \<and> 0 \<le> communityReadinessScore ?s \<and> communityReadinessScore ?s \<le> 100
       \<and> overallScore ?s =
          of_int (round (governmentalScore ?s * 0.30 + logisticsScore ?s * 0.25 +
                         policyIncentivesScore ?s * 0.25 + communityReadinessScore ?s * 0.20))"
    by blast
  with houston_run_low show ?thesis by blast
qed

section \<open>Synergy bonus\<close>



section \<open>Coordinates of a site\<close>



section \<open>The weight table\<close>




section \<open>Thresholds\<close>










end
